theory Spec2Isabelle
  imports Main "HOL-Library.Word"
begin

section \<open>JavaScript values as the handlers observe them\<close>

text \<open>
  The three handlers of \<^verbatim>\<open>src/server.js\<close> read fields of parsed JSON (the request
  body, the generation service's response) and test them with \<^verbatim>\<open>!v\<close>,
  \<^verbatim>\<open>v.length === 0\<close> and \<^verbatim>\<open>v[0]\<close>. A value is therefore a JSON value or
  \<^verbatim>\<open>undefined\<close>. Numbers are kept as integers: the handlers only test a number
  for being zero.
\<close>

datatype jsval =
    JUndefined
  | JNull
  | JBool bool
  | JNum int
  | JStr string
  | JArr "jsval list"
  | JObj "(string \<times> jsval) list"

text \<open>JavaScript's ToBoolean: \<^verbatim>\<open>!v\<close> is \<open>\<not> truthy v\<close>.\<close>

fun truthy :: "jsval \<Rightarrow> bool" where
  "truthy JUndefined = False"
| "truthy JNull = False"
| "truthy (JBool b) = b"
| "truthy (JNum n) = (n \<noteq> 0)"
| "truthy (JStr s) = (s \<noteq> [])"
| "truthy (JArr xs) = True"
| "truthy (JObj kvs) = True"

text \<open>
  Reading a property of a parsed object, kept as the list of its keys and values (a key
  occurs once): an absent key reads as \<^verbatim>\<open>undefined\<close>.
\<close>

definition field :: "(string \<times> jsval) list \<Rightarrow> string \<Rightarrow> jsval" where
  "field kvs k = (case map_of kvs k of None \<Rightarrow> JUndefined | Some v \<Rightarrow> v)"

text \<open>
  \<^verbatim>\<open>v.images\<close> and \<^verbatim>\<open>v.image\<close>: a named property that no built-in prototype
  defines. Only an object can carry it. The handlers read it behind a truthiness guard
  on \<open>v\<close>, so the \<^verbatim>\<open>TypeError\<close> of reading a property of \<^verbatim>\<open>null\<close> or
  \<^verbatim>\<open>undefined\<close> is never reached; the model writes the guard as the enclosing
  \<open>if\<close>.
\<close>

fun member :: "jsval \<Rightarrow> string \<Rightarrow> jsval" where
  "member (JObj kvs) k = field kvs k"
| "member v k = JUndefined"

text \<open>\<^verbatim>\<open>v.length\<close> for a truthy \<open>v\<close>.\<close>

fun js_length :: "jsval \<Rightarrow> jsval" where
  "js_length (JArr xs) = JNum (int (length xs))"
| "js_length (JStr s) = JNum (int (length s))"
| "js_length (JObj kvs) = field kvs ''length''"
| "js_length v = JUndefined"

text \<open>
  \<^verbatim>\<open>v[0]\<close> for a truthy \<open>v\<close>: the first element of an array, the first
  character of a string, the property \<^verbatim>\<open>"0"\<close> of an object; out of range it
  reads as \<^verbatim>\<open>undefined\<close>.
\<close>

fun index0 :: "jsval \<Rightarrow> jsval" where
  "index0 (JArr []) = JUndefined"
| "index0 (JArr (x # xs)) = x"
| "index0 (JStr []) = JUndefined"
| "index0 (JStr (c # cs)) = JStr [c]"
| "index0 (JObj kvs) = field kvs ''0''"
| "index0 v = JUndefined"

text \<open>A destructuring default \<^verbatim>\<open>{ x = d }\<close> applies to \<^verbatim>\<open>undefined\<close> only.\<close>

fun defaulted :: "jsval \<Rightarrow> jsval \<Rightarrow> jsval" where
  "defaulted JUndefined d = d"
| "defaulted v d = v"

section \<open>Errors, requests, responses\<close>

text \<open>
  A rejected promise carries an error object; the catch blocks read only its
  \<^verbatim>\<open>message\<close>, which is absent (\<open>None\<close>) or a string.
\<close>

datatype js_error = JsError (message: "string option")

text \<open>\<^verbatim>\<open>error.message || fallback\<close>\<close>

definition message_or :: "js_error \<Rightarrow> string \<Rightarrow> string" where
  "message_or error fallback =
     (case message error of
        None \<Rightarrow> fallback
      | Some m \<Rightarrow> if m = [] then fallback else m)"

type_synonym bytes = "8 word list"

text \<open>
  \<^verbatim>\<open>req.body\<close> is the object the JSON or multipart parser built;
  \<^verbatim>\<open>req.file\<close> (here \<open>req_file\<close>) is set by multer when the multipart field
  \<^verbatim>\<open>image\<close> holds a file, and carries the file's buffer.
\<close>

record request =
  body :: "(string \<times> jsval) list"
  req_file :: "bytes option"

text \<open>\<^verbatim>\<open>res.status(n).json(obj)\<close>; \<^verbatim>\<open>res.json(obj)\<close> alone answers 200.\<close>

record response =
  status :: nat
  json :: "(string \<times> jsval) list"

section \<open>The external clients and the calls made to them\<close>

record upload_options =
  folder :: string
  format :: "string option"

record upload_result =
  secure_url :: string
  public_id :: string

text \<open>
  Every awaited call of a handler, in the order made: \<^verbatim>\<open>axios.post\<close> (URL, JSON
  payload, headers), \<^verbatim>\<open>axios.get\<close> (URL), \<^verbatim>\<open>sharp(..).png().toBuffer()\<close>
  (input bytes) and \<^verbatim>\<open>cloudinary.uploader.upload_stream(..).end(..)\<close> (options,
  bytes).
\<close>

datatype call =
    is_Post: Post string "(string \<times> jsval) list" "(string \<times> string) list"
  | is_Get: Get jsval
  | is_Sharp: Sharp bytes
  | is_Upload: Upload (options: upload_options) bytes

text \<open>
  The world outside the handlers: what each client answers to each call, an error
  (the promise rejects) or a value. \<open>axios_post\<close> answers with the \<^verbatim>\<open>data\<close> of
  the HTTP response, \<open>axios_get\<close> with the downloaded bytes.
\<close>

record env =
  IDEOGRAM_API_KEY :: "string option"
  axios_post :: "string \<Rightarrow> (string \<times> jsval) list \<Rightarrow> (string \<times> string) list \<Rightarrow> js_error + jsval"
  axios_get :: "jsval \<Rightarrow> js_error + bytes"
  sharp_png :: "bytes \<Rightarrow> js_error + bytes"
  upload_stream :: "upload_options \<Rightarrow> bytes \<Rightarrow> js_error + upload_result"

text \<open>The headers of every call to the generation service (lines 47-50, 105-108, 185-188).\<close>

definition ideogram_headers :: "env \<Rightarrow> (string \<times> string) list" where
  "ideogram_headers env =
     [(''Authorization'',
         ''Bearer '' @ (case IDEOGRAM_API_KEY env of None \<Rightarrow> ''undefined'' | Some k \<Rightarrow> k)),
      (''Content-Type'', ''application/json'')]"

section \<open>The handlers\<close>

text \<open>
  Download, convert to PNG, upload, answer (lines 60-84, 118-142 and 198-222: the same
  statements in the three handlers, up to the folder). The result is either the error
  thrown inside \<^verbatim>\<open>try\<close> (\<open>Inl\<close>) or the response sent, with the calls made.
\<close>

definition download_convert_upload ::
  "env \<Rightarrow> jsval \<Rightarrow> string \<Rightarrow> call list \<Rightarrow> (js_error + response) \<times> call list" where
  "download_convert_upload env imageUrl folder_name calls =
     (case axios_get env imageUrl of
        Inl error \<Rightarrow> (Inl error, calls @ [Get imageUrl])
      | Inr imageData \<Rightarrow>
          (case sharp_png env imageData of
             Inl error \<Rightarrow> (Inl error, calls @ [Get imageUrl, Sharp imageData])
           | Inr pngBuffer \<Rightarrow>
               (let opts = \<lparr>folder = folder_name, format = Some ''png''\<rparr> in
                case upload_stream env opts pngBuffer of
                  Inl error \<Rightarrow>
                    (Inl error,
                     calls @ [Get imageUrl, Sharp imageData, Upload opts pngBuffer])
                | Inr uploadResult \<Rightarrow>
                    (Inr \<lparr>status = 200,
                          json = [(''success'', JBool True),
                                  (''original_url'', imageUrl),
                                  (''cloudinary_url'', JStr (secure_url uploadResult)),
                                  (''public_id'', JStr (public_id uploadResult))]\<rparr>,
                     calls @ [Get imageUrl, Sharp imageData, Upload opts pngBuffer]))))"

text \<open>
  The catch block of a handler: status 500 with the message or the fallback. The line
  written to the console is not part of the answer and is left out.
\<close>

definition catch_with ::
  "string \<Rightarrow> (js_error + response) \<times> call list \<Rightarrow> response \<times> call list" where
  "catch_with fallback r =
     (case r of
        (Inl error, calls) \<Rightarrow>
          (\<lparr>status = 500, json = [(''error'', JStr (message_or error fallback))]\<rparr>, calls)
      | (Inr res, calls) \<Rightarrow> (res, calls))"

text \<open>\<^verbatim>\<open>POST /api/generate\<close>, the body of \<^verbatim>\<open>try\<close> (lines 36-84).\<close>

definition generate_try :: "env \<Rightarrow> request \<Rightarrow> (js_error + response) \<times> call list" where
  "generate_try env req =
     (let prompt = field (body req) ''prompt'';
          aspect_ratio = defaulted (field (body req) ''aspect_ratio'') (JStr ''1:1'')
      in
      if \<not> truthy prompt then
        (Inr \<lparr>status = 400, json = [(''error'', JStr ''Prompt is required'')]\<rparr>, [])
      else
        (let url = ''https://api.ideogram.ai/generate'';
             payload = [(''prompt'', prompt), (''aspect_ratio'', aspect_ratio)];
             failed = \<lparr>status = 500, json = [(''error'', JStr ''Failed to generate image'')]\<rparr>
         in
         case axios_post env url payload (ideogram_headers env) of
           Inl error \<Rightarrow> (Inl error, [Post url payload (ideogram_headers env)])
         | Inr data \<Rightarrow>
             if \<not> truthy data then
               (Inr failed, [Post url payload (ideogram_headers env)])
             else if \<not> truthy (member data ''images'') then
               (Inr failed, [Post url payload (ideogram_headers env)])
             else if js_length (member data ''images'') = JNum 0 then
               (Inr failed, [Post url payload (ideogram_headers env)])
             else
               download_convert_upload env (index0 (member data ''images''))
                 ''ideogram-images'' [Post url payload (ideogram_headers env)]))"

definition generate :: "env \<Rightarrow> request \<Rightarrow> response \<times> call list" where
  "generate env req = catch_with ''Failed to process image'' (generate_try env req)"

text \<open>\<^verbatim>\<open>POST /api/reframe\<close>, the body of \<^verbatim>\<open>try\<close> (lines 94-142).\<close>

definition reframe_try :: "env \<Rightarrow> request \<Rightarrow> (js_error + response) \<times> call list" where
  "reframe_try env req =
     (let image_url = field (body req) ''image_url'';
          aspect_ratio = defaulted (field (body req) ''aspect_ratio'') (JStr ''1:1'')
      in
      if \<not> truthy image_url then
        (Inr \<lparr>status = 400, json = [(''error'', JStr ''Image URL is required'')]\<rparr>, [])
      else
        (let url = ''https://api.ideogram.ai/reframe'';
             payload = [(''image_url'', image_url), (''aspect_ratio'', aspect_ratio)];
             failed = \<lparr>status = 500, json = [(''error'', JStr ''Failed to reframe image'')]\<rparr>
         in
         case axios_post env url payload (ideogram_headers env) of
           Inl error \<Rightarrow> (Inl error, [Post url payload (ideogram_headers env)])
         | Inr data \<Rightarrow>
             if \<not> truthy data then
               (Inr failed, [Post url payload (ideogram_headers env)])
             else if \<not> truthy (member data ''image'') then
               (Inr failed, [Post url payload (ideogram_headers env)])
             else
               download_convert_upload env (member data ''image'')
                 ''ideogram-reframed'' [Post url payload (ideogram_headers env)]))"

definition reframe :: "env \<Rightarrow> request \<Rightarrow> response \<times> call list" where
  "reframe env req = catch_with ''Failed to reframe image'' (reframe_try env req)"

text \<open>
  \<^verbatim>\<open>POST /api/remix\<close> from line 173 on, once \<^verbatim>\<open>imageUrl\<close> is set; \<open>calls\<close> are
  the calls made before.
\<close>

definition remix_with ::
  "env \<Rightarrow> request \<Rightarrow> jsval \<Rightarrow> call list \<Rightarrow> (js_error + response) \<times> call list" where
  "remix_with env req imageUrl calls =
     (let prompt = field (body req) ''prompt'';
          aspect_ratio = defaulted (field (body req) ''aspect_ratio'') (JStr ''1:1'')
      in
      if \<not> truthy prompt then
        (Inr \<lparr>status = 400, json = [(''error'', JStr ''Prompt is required'')]\<rparr>, calls)
      else
        (let url = ''https://api.ideogram.ai/remix'';
             payload = [(''image_url'', imageUrl), (''prompt'', prompt),
                        (''aspect_ratio'', aspect_ratio)];
             failed = \<lparr>status = 500, json = [(''error'', JStr ''Failed to remix image'')]\<rparr>
         in
         case axios_post env url payload (ideogram_headers env) of
           Inl error \<Rightarrow> (Inl error, calls @ [Post url payload (ideogram_headers env)])
         | Inr data \<Rightarrow>
             if \<not> truthy data then
               (Inr failed, calls @ [Post url payload (ideogram_headers env)])
             else if \<not> truthy (member data ''images'') then
               (Inr failed, calls @ [Post url payload (ideogram_headers env)])
             else if js_length (member data ''images'') = JNum 0 then
               (Inr failed, calls @ [Post url payload (ideogram_headers env)])
             else
               download_convert_upload env (index0 (member data ''images''))
                 ''ideogram-remixed'' (calls @ [Post url payload (ideogram_headers env)])))"

text \<open>\<^verbatim>\<open>POST /api/remix\<close>, the body of \<^verbatim>\<open>try\<close> (lines 152-222).\<close>

definition remix_try :: "env \<Rightarrow> request \<Rightarrow> (js_error + response) \<times> call list" where
  "remix_try env req =
     (case req_file req of
        Some buffer \<Rightarrow>
          (let opts = \<lparr>folder = ''temp-uploads'', format = None\<rparr> in
           case upload_stream env opts buffer of
             Inl error \<Rightarrow> (Inl error, [Upload opts buffer])
           | Inr tempUpload \<Rightarrow>
               remix_with env req (JStr (secure_url tempUpload)) [Upload opts buffer])
      | None \<Rightarrow>
          if truthy (field (body req) ''image_url'') then
            remix_with env req (field (body req) ''image_url'') []
          else
            (Inr \<lparr>status = 400,
                  json = [(''error'', JStr ''Image (file or URL) is required'')]\<rparr>, []))"

definition remix :: "env \<Rightarrow> request \<Rightarrow> response \<times> call list" where
  "remix env req = catch_with ''Failed to remix image'' (remix_try env req)"

text \<open>The POST routes registered on the application (lines 34, 92, 150).\<close>

definition app_post :: "string \<Rightarrow> (env \<Rightarrow> request \<Rightarrow> response \<times> call list) option" where
  "app_post path =
     (if path = ''/api/generate'' then Some generate
      else if path = ''/api/reframe'' then Some reframe
      else if path = ''/api/remix'' then Some remix
      else None)"

section \<open>Reading a run\<close>

text \<open>A call of the run was answered with the error \<open>e\<close>.\<close>

fun call_raises :: "env \<Rightarrow> js_error \<Rightarrow> call \<Rightarrow> bool" where
  "call_raises env e (Post url payload headers) = (axios_post env url payload headers = Inl e)"
| "call_raises env e (Get url) = (axios_get env url = Inl e)"
| "call_raises env e (Sharp input) = (sharp_png env input = Inl e)"
| "call_raises env e (Upload opts input) = (upload_stream env opts input = Inl e)"

section \<open>Stub clients and sample requests\<close>

definition fox_url :: jsval where
  "fox_url = JStr ''https://ideogram.example/fox.jpg''"

definition stub_env :: env where
  "stub_env =
     \<lparr>IDEOGRAM_API_KEY = Some ''key'',
      axios_post = (\<lambda>url payload headers.
        if url = ''https://api.ideogram.ai/reframe''
        then Inr (JObj [(''image'', fox_url)])
        else Inr (JObj [(''images'', JArr [fox_url])])),
      axios_get = (\<lambda>url. Inr [255, 216, 255]),
      sharp_png = (\<lambda>input. Inr [137, 80, 78, 71]),
      upload_stream = (\<lambda>opts input.
        if folder opts = ''temp-uploads''
        then Inr \<lparr>secure_url = ''https://cdn/tmp.jpg'', public_id = ''temp-uploads/tmp''\<rparr>
        else Inr \<lparr>secure_url = ''https://cdn/x.png'', public_id = ''ideogram-images/x''\<rparr>)\<rparr>"

definition fox_request :: request where
  "fox_request =
     \<lparr>body = [(''prompt'', JStr ''a red fox''), (''aspect_ratio'', JStr ''1:1'')],
      req_file = None\<rparr>"

definition upload_only_request :: request where
  "upload_only_request = \<lparr>body = [], req_file = Some [1, 2, 3]\<rparr>"

definition fox_file_request :: request where
  "fox_file_request =
     \<lparr>body = [(''prompt'', JStr ''a red fox''), (''image_url'', JStr ''https://elsewhere/cat.png'')],
      req_file = Some [1, 2, 3]\<rparr>"

text \<open>The generation service raises an error whose message is the empty string.\<close>

definition refusing_env :: env where
  "refusing_env = stub_env\<lparr>axios_post := (\<lambda>url payload headers. Inl (JsError (Some [])))\<rparr>"

text \<open>The generation service raises an error with a message.\<close>

definition failing_env :: env where
  "failing_env = stub_env\<lparr>axios_post := (\<lambda>url payload headers. Inl (JsError (Some ''Request failed with status code 429'')))\<rparr>"

text \<open>The conversion raises an error that has no message.\<close>

definition silent_env :: env where
  "silent_env = stub_env\<lparr>sharp_png := (\<lambda>input. Inl (JsError None))\<rparr>"

text \<open>The conversion rejects the downloaded bytes.\<close>

definition corrupt_env :: env where
  "corrupt_env =
     stub_env\<lparr>sharp_png := (\<lambda>input. Inl (JsError (Some ''Input buffer contains unsupported image format'')))\<rparr>"

text \<open>The generation service answers with an empty list of images.\<close>

definition empty_env :: env where
  "empty_env = stub_env\<lparr>axios_post := (\<lambda>url payload headers. Inr (JObj [(''images'', JArr [])]))\<rparr>"

section \<open>Shared facts\<close>

lemmas handler_defs = generate_def generate_try_def reframe_def reframe_try_def remix_def
  remix_try_def remix_with_def download_convert_upload_def catch_with_def

lemma app_post_cases:
  assumes "app_post path = Some h"
  obtains "path = ''/api/generate''" "h = generate"
  | "path = ''/api/reframe''" "h = reframe"
  | "path = ''/api/remix''" "h = remix"
  using assms by (auto simp: app_post_def split: if_splits)

text \<open>
  Validation that does precede every call: a missing prompt in generate, a missing
  image URL in reframe, and in remix a missing image source, or a missing prompt when
  the image comes as a URL.
\<close>

lemma validation_without_calls:
  "\<not> truthy (field (body req) ''prompt'') \<Longrightarrow>
     generate env req =
       (\<lparr>status = 400, json = [(''error'', JStr ''Prompt is required'')]\<rparr>, [])"
  "\<not> truthy (field (body req) ''image_url'') \<Longrightarrow>
     reframe env req =
       (\<lparr>status = 400, json = [(''error'', JStr ''Image URL is required'')]\<rparr>, [])"
  "req_file req = None \<Longrightarrow> \<not> truthy (field (body req) ''image_url'') \<Longrightarrow>
     remix env req =
       (\<lparr>status = 400, json = [(''error'', JStr ''Image (file or URL) is required'')]\<rparr>, [])"
  "req_file req = None \<Longrightarrow> truthy (field (body req) ''image_url'') \<Longrightarrow>
   \<not> truthy (field (body req) ''prompt'') \<Longrightarrow>
     remix env req =
       (\<lparr>status = 400, json = [(''error'', JStr ''Prompt is required'')]\<rparr>, [])"
  by (simp_all add: handler_defs)

section \<open>Validation\<close>

text \<open>
  C1. A request that lacks a required field is answered 400 before any external client
  is called. The remix handler does not keep this order when a file is uploaded: the
  file goes to the media store (folder \<^verbatim>\<open>temp-uploads\<close>) before the prompt is
  looked at. Evaluated here on a remix request with a three-byte file and no prompt:
  the answer is 400, after one upload.
\<close>

theorem remix_uploads_before_prompt_check:
  "remix stub_env upload_only_request =
     (\<lparr>status = 400, json = [(''error'', JStr ''Prompt is required'')]\<rparr>,
      [Upload \<lparr>folder = ''temp-uploads'', format = None\<rparr> [1, 2, 3]])"
  by (simp add: remix_def remix_try_def remix_with_def catch_with_def field_def
      stub_env_def upload_only_request_def)

text \<open>
  C7. \<^verbatim>\<open>POST /api/reframe\<close> with the empty JSON object as body is answered 400 with
  the body \<^verbatim>\<open>{"error": "Image URL is required"}\<close>, whatever the clients would do.
\<close>

theorem reframe_empty_body:
  "app_post ''/api/reframe'' = Some reframe \<and>
   reframe env \<lparr>body = [], req_file = f\<rparr> =
     (\<lparr>status = 400, json = [(''error'', JStr ''Image URL is required'')]\<rparr>, [])"
  by (simp add: app_post_def reframe_def reframe_try_def catch_with_def field_def)

text \<open>
  C9. In the remix handler the image-source check comes before the prompt check: a
  request with no file, no image URL and no prompt is answered 400 with the
  image-source message, not the prompt message.
\<close>

theorem remix_image_check_first:
  assumes "req_file req = None"
    and "\<not> truthy (field (body req) ''image_url'')"
    and "\<not> truthy (field (body req) ''prompt'')"
  shows "remix env req =
           (\<lparr>status = 400,
             json = [(''error'', JStr ''Image (file or URL) is required'')]\<rparr>, [])
         \<and> json (fst (remix env req)) \<noteq> [(''error'', JStr ''Prompt is required'')]"
  using assms by (simp add: handler_defs)

theorem remix_image_check_first_witness:
  "req_file \<lparr>body = [], req_file = None\<rparr> = None \<and>
   remix stub_env \<lparr>body = [], req_file = None\<rparr> =
     (\<lparr>status = 400, json = [(''error'', JStr ''Image (file or URL) is required'')]\<rparr>, [])"
  using remix_image_check_first [of "\<lparr>body = [], req_file = None\<rparr>" stub_env]
  by (simp add: field_def)

section \<open>Errors raised by a call\<close>

lemma dcu_raises:
  assumes "c \<in> set (snd (download_convert_upload env u f calls))"
    and "call_raises env e c" and "\<forall>c\<in>set calls. \<not> call_raises env e c"
  shows "fst (download_convert_upload env u f calls) = Inl e"
  using assms by (auto simp: download_convert_upload_def Let_def split: sum.splits)

lemma generate_try_raises:
  "c \<in> set (snd (generate_try env req)) \<Longrightarrow> call_raises env e c \<Longrightarrow>
     fst (generate_try env req) = Inl e"
  by (auto simp: generate_try_def Let_def split: sum.splits if_splits dest!: dcu_raises)

lemma reframe_try_raises:
  "c \<in> set (snd (reframe_try env req)) \<Longrightarrow> call_raises env e c \<Longrightarrow>
     fst (reframe_try env req) = Inl e"
  by (auto simp: reframe_try_def Let_def split: sum.splits if_splits dest!: dcu_raises)

lemma remix_with_raises:
  "c \<in> set (snd (remix_with env req u calls)) \<Longrightarrow> call_raises env e c \<Longrightarrow>
   \<forall>c\<in>set calls. \<not> call_raises env e c \<Longrightarrow>
     fst (remix_with env req u calls) = Inl e"
  by (auto simp: remix_with_def Let_def split: sum.splits if_splits dest!: dcu_raises)

lemma remix_try_raises:
  "c \<in> set (snd (remix_try env req)) \<Longrightarrow> call_raises env e c \<Longrightarrow>
     fst (remix_try env req) = Inl e"
  by (auto simp: remix_try_def Let_def split: sum.splits if_splits option.splits dest!: remix_with_raises)

lemma catch_with_raised:
  "fst r = Inl e \<Longrightarrow>
     fst (catch_with fb r) = \<lparr>status = 500, json = [(''error'', JStr (message_or e fb))]\<rparr>"
  by (cases r) (simp add: catch_with_def)

section \<open>Error answers\<close>

text \<open>
  C8 (as amended). On each of the three endpoints, when a call the handler made (the
  generation service, the image download, the conversion or a store upload) raises an
  error, the answer is 500; and when the error's message is a non-empty string, the
  body is \<^verbatim>\<open>{error: message}\<close> with that message unchanged.
\<close>

theorem raised_message_surfaced:
  assumes "app_post path = Some h"
    and "c \<in> set (snd (h env req))" and "call_raises env e c"
  shows "status (fst (h env req)) = 500 \<and>
         (\<forall>m. message e = Some m \<and> m \<noteq> [] \<longrightarrow>
               json (fst (h env req)) = [(''error'', JStr m)])"
proof -
  have snd_catch: "snd (catch_with fb r) = snd r" for fb r
    by (cases r) (auto simp: catch_with_def split: sum.splits)
  have msg: "message_or e fb = m" if "message e = Some m" "m \<noteq> []" for fb m
    using that by (simp add: message_or_def)
  from assms(1) show ?thesis
  proof (cases rule: app_post_cases)
    case 1
    with assms(2,3) have "fst (generate_try env req) = Inl e"
      by (auto simp: generate_def snd_catch intro: generate_try_raises)
    with 1 show ?thesis by (simp add: generate_def catch_with_raised msg)
  next
    case 2
    with assms(2,3) have "fst (reframe_try env req) = Inl e"
      by (auto simp: reframe_def snd_catch intro: reframe_try_raises)
    with 2 show ?thesis by (simp add: reframe_def catch_with_raised msg)
  next
    case 3
    with assms(2,3) have "fst (remix_try env req) = Inl e"
      by (auto simp: remix_def snd_catch intro: remix_try_raises)
    with 3 show ?thesis by (simp add: remix_def catch_with_raised msg)
  qed
qed

text \<open>
  An instance of C8: the generation service refuses a remix with a message, which
  comes back as the 500 body.
\<close>

theorem raised_message_surfaced_witness:
  "status (fst (remix failing_env fox_file_request)) = 500 \<and>
   json (fst (remix failing_env fox_file_request)) =
     [(''error'', JStr ''Request failed with status code 429'')]"
proof -
  let ?c = "Post ''https://api.ideogram.ai/remix''
              [(''image_url'', JStr ''https://cdn/tmp.jpg''), (''prompt'', JStr ''a red fox''),
               (''aspect_ratio'', JStr ''1:1'')]
              (ideogram_headers failing_env)"
  have route: "app_post ''/api/remix'' = Some remix"
    by (simp add: app_post_def)
  have made: "?c \<in> set (snd (remix failing_env fox_file_request))"
    by (simp add: handler_defs failing_env_def stub_env_def fox_file_request_def field_def)
  have raised:
    "call_raises failing_env (JsError (Some ''Request failed with status code 429'')) ?c"
    by (simp add: failing_env_def)
  show ?thesis
    using raised_message_surfaced [OF route made raised] by simp
qed

text \<open>
  C8 as first stated (the message is surfaced verbatim, whatever it is) fails for an
  error whose message is the empty string: the generation service raises it, and the
  body carries the fallback of the catch block instead.
\<close>

theorem empty_message_not_surfaced:
  "call_raises refusing_env (JsError (Some []))
     (Post ''https://api.ideogram.ai/generate''
        [(''prompt'', JStr ''a red fox''), (''aspect_ratio'', JStr ''1:1'')]
        (ideogram_headers refusing_env)) \<and>
   generate refusing_env fox_request =
     (\<lparr>status = 500, json = [(''error'', JStr ''Failed to process image'')]\<rparr>,
      [Post ''https://api.ideogram.ai/generate''
        [(''prompt'', JStr ''a red fox''), (''aspect_ratio'', JStr ''1:1'')]
        (ideogram_headers refusing_env)]) \<and>
   field (json (fst (generate refusing_env fox_request))) ''error'' \<noteq> JStr []"
  by (simp add: handler_defs refusing_env_def stub_env_def fox_request_def field_def
      message_or_def)

lemma snd_catch_with: "snd (catch_with fb r) = snd r"
  by (cases r) (auto simp: catch_with_def split: sum.splits)

lemma message_or_nonempty: "fb \<noteq> [] \<Longrightarrow> message_or e fb \<noteq> []"
  by (simp add: message_or_def split: option.splits)

lemma message_or_fallback: "message e = None \<or> message e = Some [] \<Longrightarrow> message_or e fb = fb"
  by (auto simp: message_or_def)

lemma dcu_not_500:
  "fst (download_convert_upload env u f calls) = Inr res \<Longrightarrow> status res = 200"
  by (auto simp: download_convert_upload_def Let_def split: sum.splits)

lemma generate_try_500:
  "fst (generate_try env req) = Inr res \<Longrightarrow> status res = 500 \<Longrightarrow>
     json res = [(''error'', JStr ''Failed to generate image'')]"
  by (auto simp: generate_try_def Let_def split: sum.splits if_splits dest: dcu_not_500)

lemma reframe_try_500:
  "fst (reframe_try env req) = Inr res \<Longrightarrow> status res = 500 \<Longrightarrow>
     json res = [(''error'', JStr ''Failed to reframe image'')]"
  by (auto simp: reframe_try_def Let_def split: sum.splits if_splits dest: dcu_not_500)

lemma remix_with_500:
  "fst (remix_with env req u calls) = Inr res \<Longrightarrow> status res = 500 \<Longrightarrow>
     json res = [(''error'', JStr ''Failed to remix image'')]"
  by (auto simp: remix_with_def Let_def split: sum.splits if_splits dest: dcu_not_500)

lemma remix_try_500:
  "fst (remix_try env req) = Inr res \<Longrightarrow> status res = 500 \<Longrightarrow>
     json res = [(''error'', JStr ''Failed to remix image'')]"
  by (auto simp: remix_try_def Let_def split: sum.splits if_splits option.splits
      dest: remix_with_500)

lemma catch_with_500:
  assumes "status (fst (catch_with fb r)) = 500" and "fb \<noteq> []"
    and "\<And>res. fst r = Inr res \<Longrightarrow> status res = 500 \<Longrightarrow> \<exists>m. json res = [(''error'', JStr m)] \<and> m \<noteq> []"
  shows "\<exists>m. json (fst (catch_with fb r)) = [(''error'', JStr m)] \<and> m \<noteq> []"
proof (cases r)
  case (Pair x calls)
  show ?thesis
  proof (cases x)
    case (Inl e)
    with Pair assms(2) show ?thesis
      by (simp add: catch_with_def message_or_nonempty)
  next
    case (Inr res)
    with Pair assms(1,3) show ?thesis
      by (simp add: catch_with_def)
  qed
qed

text \<open>
  C10. On each endpoint a 500 answer has a body \<^verbatim>\<open>{error: m}\<close> with \<open>m\<close> a
  non-empty string; and when a call raises an error with no message or an empty one,
  the body carries the fixed fallback of that endpoint.
\<close>

theorem error_field_nonempty:
  assumes "app_post path = Some h"
  shows "(status (fst (h env req)) = 500 \<longrightarrow>
            (\<exists>m. json (fst (h env req)) = [(''error'', JStr m)] \<and> m \<noteq> []))
       \<and> (\<forall>c e. c \<in> set (snd (h env req)) \<and> call_raises env e c
                  \<and> (message e = None \<or> message e = Some []) \<longrightarrow>
             fst (h env req) =
               \<lparr>status = 500,
                json = [(''error'',
                         JStr (if path = ''/api/generate'' then ''Failed to process image''
                               else if path = ''/api/reframe'' then ''Failed to reframe image''
                               else ''Failed to remix image''))]\<rparr>)"
  using assms
proof (cases rule: app_post_cases)
  case 1
  have "fst (generate_try env req) = Inl e" if "c \<in> set (snd (h env req))" "call_raises env e c" for c e
    using that 1 by (auto simp: generate_def snd_catch_with intro: generate_try_raises)
  moreover have "\<exists>m. json (fst (h env req)) = [(''error'', JStr m)] \<and> m \<noteq> []"
    if "status (fst (h env req)) = 500"
    using that unfolding 1 generate_def
    by (rule catch_with_500) (auto dest: generate_try_500)
  ultimately show ?thesis
    using 1 by (auto simp: generate_def catch_with_raised message_or_fallback)
next
  case 2
  have "fst (reframe_try env req) = Inl e" if "c \<in> set (snd (h env req))" "call_raises env e c" for c e
    using that 2 by (auto simp: reframe_def snd_catch_with intro: reframe_try_raises)
  moreover have "\<exists>m. json (fst (h env req)) = [(''error'', JStr m)] \<and> m \<noteq> []"
    if "status (fst (h env req)) = 500"
    using that unfolding 2 reframe_def
    by (rule catch_with_500) (auto dest: reframe_try_500)
  ultimately show ?thesis
    using 2 by (auto simp: reframe_def catch_with_raised message_or_fallback)
next
  case 3
  have "fst (remix_try env req) = Inl e" if "c \<in> set (snd (h env req))" "call_raises env e c" for c e
    using that 3 by (auto simp: remix_def snd_catch_with intro: remix_try_raises)
  moreover have "\<exists>m. json (fst (h env req)) = [(''error'', JStr m)] \<and> m \<noteq> []"
    if "status (fst (h env req)) = 500"
    using that unfolding 3 remix_def
    by (rule catch_with_500) (auto dest: remix_try_500)
  ultimately show ?thesis
    using 3 by (auto simp: remix_def catch_with_raised message_or_fallback)
qed

text \<open>
  An instance of C10: the conversion raises an error without message during a reframe.
\<close>

theorem error_field_nonempty_witness:
  "fst (reframe silent_env \<lparr>body = [(''image_url'', fox_url)], req_file = None\<rparr>) =
     \<lparr>status = 500, json = [(''error'', JStr ''Failed to reframe image'')]\<rparr>"
proof -
  let ?req = "\<lparr>body = [(''image_url'', fox_url)], req_file = None\<rparr>"
  have route: "app_post ''/api/reframe'' = Some reframe"
    by (simp add: app_post_def)
  have made: "Sharp [255, 216, 255] \<in> set (snd (reframe silent_env ?req))"
    by (simp add: handler_defs Let_def silent_env_def stub_env_def field_def fox_url_def)
  have raised: "call_raises silent_env (JsError None) (Sharp [255, 216, 255])"
    by (simp add: silent_env_def)
  show ?thesis
    using error_field_nonempty [OF route, of silent_env ?req] made raised by auto
qed

section \<open>Conversion and storage\<close>

lemma dcu_sharp_failed:
  assumes "Sharp input \<in> set (snd (download_convert_upload env u f calls))"
    and "sharp_png env input = Inl e" and "\<forall>c\<in>set calls. \<not> is_Sharp c"
  shows "snd (download_convert_upload env u f calls) = calls @ [Get u, Sharp input]
         \<and> axios_get env u = Inr input"
  using assms by (auto simp: download_convert_upload_def Let_def split: sum.splits)

lemma generate_try_sharp_failed:
  assumes "Sharp input \<in> set (snd (generate_try env req))" and "sharp_png env input = Inl e"
  shows "\<exists>p u. snd (generate_try env req) = [p, Get u, Sharp input] \<and> is_Post p
               \<and> axios_get env u = Inr input"
  using assms
  by (auto simp: generate_try_def Let_def split: sum.splits if_splits dest!: dcu_sharp_failed)

lemma reframe_try_sharp_failed:
  assumes "Sharp input \<in> set (snd (reframe_try env req))" and "sharp_png env input = Inl e"
  shows "\<exists>p u. snd (reframe_try env req) = [p, Get u, Sharp input] \<and> is_Post p
               \<and> axios_get env u = Inr input"
  using assms
  by (auto simp: reframe_try_def Let_def split: sum.splits if_splits dest!: dcu_sharp_failed)

lemma remix_with_sharp_failed:
  assumes "Sharp input \<in> set (snd (remix_with env req v calls))"
    and "sharp_png env input = Inl e" and "\<forall>c\<in>set calls. \<not> is_Sharp c"
  shows "\<exists>p u. snd (remix_with env req v calls) = calls @ [p, Get u, Sharp input] \<and> is_Post p
               \<and> axios_get env u = Inr input"
  using assms
  by (auto simp: remix_with_def Let_def split: sum.splits if_splits dest!: dcu_sharp_failed)

lemma remix_try_sharp_failed:
  assumes "Sharp input \<in> set (snd (remix_try env req))" and "sharp_png env input = Inl e"
  shows "\<exists>before p u. snd (remix_try env req) = before @ [p, Get u, Sharp input] \<and> is_Post p
               \<and> axios_get env u = Inr input
               \<and> (\<forall>c\<in>set before. options c = \<lparr>folder = ''temp-uploads'', format = None\<rparr>)"
  using assms
  by (auto simp: remix_try_def Let_def split: sum.splits if_splits option.splits
      dest!: remix_with_sharp_failed)

text \<open>
  C4. On each endpoint, when the conversion of the downloaded bytes raises an error,
  the answer is 500 and the conversion is the last call of the run: the final upload
  is not made. The only upload such a run can hold is the remix pre-step's.
\<close>

theorem transcode_failure_no_upload:
  assumes "app_post path = Some h"
    and "Sharp input \<in> set (snd (h env req))" and "sharp_png env input = Inl e"
  shows "status (fst (h env req)) = 500
       \<and> last (snd (h env req)) = Sharp input
       \<and> (\<exists>url. Get url \<in> set (snd (h env req)) \<and> axios_get env url = Inr input)
       \<and> (\<forall>c\<in>set (snd (h env req)). is_Upload c \<longrightarrow>
             options c = \<lparr>folder = ''temp-uploads'', format = None\<rparr>)"
proof -
  have raised: "call_raises env e (Sharp input)"
    using assms(3) by simp
  from assms(1) show ?thesis
  proof (cases rule: app_post_cases)
    case 1
    from assms(2) have made: "Sharp input \<in> set (snd (generate_try env req))"
      by (simp add: 1 generate_def snd_catch_with)
    from generate_try_raises [OF made raised] have "status (fst (h env req)) = 500"
      by (simp add: 1 generate_def catch_with_raised)
    moreover from generate_try_sharp_failed [OF made assms(3)]
    obtain p u where "snd (h env req) = [p, Get u, Sharp input]" "is_Post p"
      "axios_get env u = Inr input"
      by (auto simp: 1 generate_def snd_catch_with)
    ultimately show ?thesis by (cases p) auto
  next
    case 2
    from assms(2) have made: "Sharp input \<in> set (snd (reframe_try env req))"
      by (simp add: 2 reframe_def snd_catch_with)
    from reframe_try_raises [OF made raised] have "status (fst (h env req)) = 500"
      by (simp add: 2 reframe_def catch_with_raised)
    moreover from reframe_try_sharp_failed [OF made assms(3)]
    obtain p u where "snd (h env req) = [p, Get u, Sharp input]" "is_Post p"
      "axios_get env u = Inr input"
      by (auto simp: 2 reframe_def snd_catch_with)
    ultimately show ?thesis by (cases p) auto
  next
    case 3
    from assms(2) have made: "Sharp input \<in> set (snd (remix_try env req))"
      by (simp add: 3 remix_def snd_catch_with)
    from remix_try_raises [OF made raised] have "status (fst (h env req)) = 500"
      by (simp add: 3 remix_def catch_with_raised)
    moreover from remix_try_sharp_failed [OF made assms(3)]
    obtain before p u where "snd (h env req) = before @ [p, Get u, Sharp input]" "is_Post p"
      "axios_get env u = Inr input"
      "\<forall>c\<in>set before. options c = \<lparr>folder = ''temp-uploads'', format = None\<rparr>"
      by (auto simp: 3 remix_def snd_catch_with)
    ultimately show ?thesis by (cases p) auto
  qed
qed

text \<open>An instance of C4: a remix with an uploaded file whose result cannot be decoded.\<close>

theorem transcode_failure_no_upload_witness:
  "status (fst (remix corrupt_env fox_file_request)) = 500 \<and>
   last (snd (remix corrupt_env fox_file_request)) = Sharp [255, 216, 255] \<and>
   (\<exists>url. Get url \<in> set (snd (remix corrupt_env fox_file_request)) \<and>
      axios_get corrupt_env url = Inr [255, 216, 255])"
proof -
  have route: "app_post ''/api/remix'' = Some remix"
    by (simp add: app_post_def)
  have made: "Sharp [255, 216, 255] \<in> set (snd (remix corrupt_env fox_file_request))"
    by (simp add: handler_defs Let_def corrupt_env_def stub_env_def fox_file_request_def field_def)
  have failed: "sharp_png corrupt_env [255, 216, 255] =
      Inl (JsError (Some ''Input buffer contains unsupported image format''))"
    by (simp add: corrupt_env_def)
  show ?thesis
    using transcode_failure_no_upload [OF route made failed] by blast
qed

section \<open>The answer of the generation service\<close>

lemma dcu_post:
  "Post url payload headers \<in> set (snd (download_convert_upload env u f calls)) \<Longrightarrow>
     Post url payload headers \<in> set calls"
  by (auto simp: download_convert_upload_def Let_def split: sum.splits)

lemma generate_try_no_image:
  assumes "Post url payload headers \<in> set (snd (generate_try env req))"
    and "axios_post env url payload headers = Inr data"
    and "\<not> truthy (member data ''images'') \<or> member data ''images'' = JArr []"
  shows "generate_try env req =
           (Inr \<lparr>status = 500, json = [(''error'', JStr ''Failed to generate image'')]\<rparr>,
            [Post url payload headers])"
  using assms
  by (auto simp: generate_try_def Let_def split: sum.splits if_splits dest!: dcu_post)

lemma reframe_try_no_image:
  assumes "Post url payload headers \<in> set (snd (reframe_try env req))"
    and "axios_post env url payload headers = Inr data"
    and "\<not> truthy (member data ''image'')"
  shows "reframe_try env req =
           (Inr \<lparr>status = 500, json = [(''error'', JStr ''Failed to reframe image'')]\<rparr>,
            [Post url payload headers])"
  using assms
  by (auto simp: reframe_try_def Let_def split: sum.splits if_splits dest!: dcu_post)

lemma remix_with_no_image:
  assumes "Post url payload headers \<in> set (snd (remix_with env req v calls))"
    and "axios_post env url payload headers = Inr data"
    and "\<not> truthy (member data ''images'') \<or> member data ''images'' = JArr []"
    and "Post url payload headers \<notin> set calls"
  shows "remix_with env req v calls =
           (Inr \<lparr>status = 500, json = [(''error'', JStr ''Failed to remix image'')]\<rparr>,
            calls @ [Post url payload headers])"
  using assms
  by (auto simp: remix_with_def Let_def split: sum.splits if_splits dest!: dcu_post)

lemma remix_try_no_image:
  assumes "Post url payload headers \<in> set (snd (remix_try env req))"
    and "axios_post env url payload headers = Inr data"
    and "\<not> truthy (member data ''images'') \<or> member data ''images'' = JArr []"
  shows "\<exists>before. remix_try env req =
           (Inr \<lparr>status = 500, json = [(''error'', JStr ''Failed to remix image'')]\<rparr>,
            before @ [Post url payload headers])
         \<and> (\<forall>c\<in>set before. is_Upload c \<and> options c = \<lparr>folder = ''temp-uploads'', format = None\<rparr>)"
  using assms
  by (auto simp: remix_try_def Let_def split: sum.splits if_splits option.splits
      dest!: remix_with_no_image)

text \<open>
  C3. On each endpoint, when the generation service answers without an image (no
  \<^verbatim>\<open>images\<close> or an empty list for generate and remix, no \<^verbatim>\<open>image\<close> for
  reframe), the answer is 500 and the call to the service is the last call of the run:
  no download, no conversion and no upload follow it.
\<close>

theorem no_image_no_fetch:
  assumes "app_post path = Some h"
    and "Post url payload headers \<in> set (snd (h env req))"
    and "axios_post env url payload headers = Inr data"
    and "if path = ''/api/reframe'' then \<not> truthy (member data ''image'')
         else \<not> truthy (member data ''images'') \<or> member data ''images'' = JArr []"
  shows "status (fst (h env req)) = 500
       \<and> (\<exists>before. snd (h env req) = before @ [Post url payload headers]
             \<and> (\<forall>c\<in>set before.
                   is_Upload c \<and> options c = \<lparr>folder = ''temp-uploads'', format = None\<rparr>))
       \<and> (\<forall>c\<in>set (snd (h env req)). \<not> is_Get c \<and> \<not> is_Sharp c)"
  using assms(1)
proof (cases rule: app_post_cases)
  case 1
  from assms(2) have "Post url payload headers \<in> set (snd (generate_try env req))"
    by (simp add: 1 generate_def snd_catch_with)
  from generate_try_no_image [OF this assms(3)] assms(4) show ?thesis
    by (simp add: 1 generate_def catch_with_def)
next
  case 2
  from assms(2) have "Post url payload headers \<in> set (snd (reframe_try env req))"
    by (simp add: 2 reframe_def snd_catch_with)
  from reframe_try_no_image [OF this assms(3)] assms(4) show ?thesis
    by (simp add: 2 reframe_def catch_with_def)
next
  case 3
  from assms(2) have "Post url payload headers \<in> set (snd (remix_try env req))"
    by (simp add: 3 remix_def snd_catch_with)
  from remix_try_no_image [OF this assms(3)] assms(4) show ?thesis
    by (auto simp: 3 remix_def catch_with_def)
qed

text \<open>An instance of C3: the service answers a generate request with an empty list.\<close>

theorem no_image_no_fetch_witness:
  "status (fst (generate empty_env fox_request)) = 500 \<and>
   (\<exists>before. snd (generate empty_env fox_request) =
      before @ [Post ''https://api.ideogram.ai/generate''
                  [(''prompt'', JStr ''a red fox''), (''aspect_ratio'', JStr ''1:1'')]
                  (ideogram_headers empty_env)])"
proof -
  let ?payload = "[(''prompt'', JStr ''a red fox''), (''aspect_ratio'', JStr ''1:1'')]"
  have route: "app_post ''/api/generate'' = Some generate"
    by (simp add: app_post_def)
  have made: "Post ''https://api.ideogram.ai/generate'' ?payload (ideogram_headers empty_env)
                \<in> set (snd (generate empty_env fox_request))"
    by (simp add: handler_defs Let_def empty_env_def stub_env_def fox_request_def field_def)
  have answer: "axios_post empty_env ''https://api.ideogram.ai/generate'' ?payload
                  (ideogram_headers empty_env) = Inr (JObj [(''images'', JArr [])])"
    by (simp add: empty_env_def)
  have none: "if ''/api/generate'' = ''/api/reframe''
              then \<not> truthy (member (JObj [(''images'', JArr [])]) ''image'')
              else \<not> truthy (member (JObj [(''images'', JArr [])]) ''images'')
                   \<or> member (JObj [(''images'', JArr [])]) ''images'' = JArr []"
    by (simp add: field_def)
  show ?thesis
    using no_image_no_fetch [OF route made answer none] by blast
qed

lemma catch_with_200:
  assumes "status (fst (catch_with fb r)) = 200"
  shows "fst r = Inr (fst (catch_with fb r))"
  using assms by (cases r) (auto simp: catch_with_def split: sum.splits)

lemma dcu_success:
  assumes "fst (download_convert_upload env u f calls) = Inr res"
  shows "\<exists>png up.
           snd (download_convert_upload env u f calls) \<noteq> [] \<and>
           last (snd (download_convert_upload env u f calls)) =
             Upload \<lparr>folder = f, format = Some ''png''\<rparr> png \<and>
           upload_stream env \<lparr>folder = f, format = Some ''png''\<rparr> png = Inr up \<and>
           res = \<lparr>status = 200,
                  json = [(''success'', JBool True), (''original_url'', u),
                          (''cloudinary_url'', JStr (secure_url up)),
                          (''public_id'', JStr (public_id up))]\<rparr>"
  using assms by (auto simp: download_convert_upload_def Let_def split: sum.splits)

lemma dcu_prefix:
  "\<exists>rest. snd (download_convert_upload env u f calls) = calls @ rest"
  by (auto simp: download_convert_upload_def Let_def split: sum.splits)

lemma generate_try_200:
  assumes "fst (generate_try env req) = Inr res" and "status res = 200"
  shows "\<exists>url payload data png up.
           Post url payload (ideogram_headers env) \<in> set (snd (generate_try env req)) \<and>
           axios_post env url payload (ideogram_headers env) = Inr data \<and>
           last (snd (generate_try env req)) =
             Upload \<lparr>folder = ''ideogram-images'', format = Some ''png''\<rparr> png \<and>
           upload_stream env \<lparr>folder = ''ideogram-images'', format = Some ''png''\<rparr> png = Inr up \<and>
           json res = [(''success'', JBool True),
                       (''original_url'', index0 (member data ''images'')),
                       (''cloudinary_url'', JStr (secure_url up)),
                       (''public_id'', JStr (public_id up))]"
proof -
  let ?url = "''https://api.ideogram.ai/generate''"
  let ?payload = "[(''prompt'', field (body req) ''prompt''),
                   (''aspect_ratio'', defaulted (field (body req) ''aspect_ratio'') (JStr ''1:1''))]"
  from assms obtain data where
    data: "axios_post env ?url ?payload (ideogram_headers env) = Inr data"
    and run: "generate_try env req =
      download_convert_upload env (index0 (member data ''images'')) ''ideogram-images''
        [Post ?url ?payload (ideogram_headers env)]"
    by (auto simp: generate_try_def Let_def split: sum.splits if_splits)
  from dcu_prefix [of env "index0 (member data ''images'')" "''ideogram-images''"
      "[Post ?url ?payload (ideogram_headers env)]"]
  have "Post ?url ?payload (ideogram_headers env) \<in> set (snd (generate_try env req))"
    by (auto simp: run)
  moreover from assms(1) dcu_success [of env "index0 (member data ''images'')" "''ideogram-images''"
      "[Post ?url ?payload (ideogram_headers env)]" res]
  obtain png up where
    "last (snd (generate_try env req)) =
       Upload \<lparr>folder = ''ideogram-images'', format = Some ''png''\<rparr> png"
    "upload_stream env \<lparr>folder = ''ideogram-images'', format = Some ''png''\<rparr> png = Inr up"
    "json res = [(''success'', JBool True), (''original_url'', index0 (member data ''images'')),
                 (''cloudinary_url'', JStr (secure_url up)), (''public_id'', JStr (public_id up))]"
    by (auto simp: run)
  ultimately show ?thesis using data by blast
qed

lemma reframe_try_200:
  assumes "fst (reframe_try env req) = Inr res" and "status res = 200"
  shows "\<exists>url payload data png up.
           Post url payload (ideogram_headers env) \<in> set (snd (reframe_try env req)) \<and>
           axios_post env url payload (ideogram_headers env) = Inr data \<and>
           last (snd (reframe_try env req)) =
             Upload \<lparr>folder = ''ideogram-reframed'', format = Some ''png''\<rparr> png \<and>
           upload_stream env \<lparr>folder = ''ideogram-reframed'', format = Some ''png''\<rparr> png = Inr up \<and>
           json res = [(''success'', JBool True),
                       (''original_url'', member data ''image''),
                       (''cloudinary_url'', JStr (secure_url up)),
                       (''public_id'', JStr (public_id up))]"
proof -
  let ?url = "''https://api.ideogram.ai/reframe''"
  let ?payload = "[(''image_url'', field (body req) ''image_url''),
                   (''aspect_ratio'', defaulted (field (body req) ''aspect_ratio'') (JStr ''1:1''))]"
  from assms obtain data where
    data: "axios_post env ?url ?payload (ideogram_headers env) = Inr data"
    and run: "reframe_try env req =
      download_convert_upload env (member data ''image'') ''ideogram-reframed''
        [Post ?url ?payload (ideogram_headers env)]"
    by (auto simp: reframe_try_def Let_def split: sum.splits if_splits)
  from dcu_prefix [of env "member data ''image''" "''ideogram-reframed''"
      "[Post ?url ?payload (ideogram_headers env)]"]
  have "Post ?url ?payload (ideogram_headers env) \<in> set (snd (reframe_try env req))"
    by (auto simp: run)
  moreover from assms(1) dcu_success [of env "member data ''image''" "''ideogram-reframed''"
      "[Post ?url ?payload (ideogram_headers env)]" res]
  obtain png up where
    "last (snd (reframe_try env req)) =
       Upload \<lparr>folder = ''ideogram-reframed'', format = Some ''png''\<rparr> png"
    "upload_stream env \<lparr>folder = ''ideogram-reframed'', format = Some ''png''\<rparr> png = Inr up"
    "json res = [(''success'', JBool True), (''original_url'', member data ''image''),
                 (''cloudinary_url'', JStr (secure_url up)), (''public_id'', JStr (public_id up))]"
    by (auto simp: run)
  ultimately show ?thesis using data by blast
qed

lemma remix_with_200:
  assumes "fst (remix_with env req v calls) = Inr res" and "status res = 200"
  shows "\<exists>url payload data png up.
           Post url payload (ideogram_headers env) \<in> set (snd (remix_with env req v calls)) \<and>
           axios_post env url payload (ideogram_headers env) = Inr data \<and>
           last (snd (remix_with env req v calls)) =
             Upload \<lparr>folder = ''ideogram-remixed'', format = Some ''png''\<rparr> png \<and>
           upload_stream env \<lparr>folder = ''ideogram-remixed'', format = Some ''png''\<rparr> png = Inr up \<and>
           json res = [(''success'', JBool True),
                       (''original_url'', index0 (member data ''images'')),
                       (''cloudinary_url'', JStr (secure_url up)),
                       (''public_id'', JStr (public_id up))]"
proof -
  let ?url = "''https://api.ideogram.ai/remix''"
  let ?payload = "[(''image_url'', v), (''prompt'', field (body req) ''prompt''),
                   (''aspect_ratio'', defaulted (field (body req) ''aspect_ratio'') (JStr ''1:1''))]"
  let ?calls = "calls @ [Post ?url ?payload (ideogram_headers env)]"
  from assms obtain data where
    data: "axios_post env ?url ?payload (ideogram_headers env) = Inr data"
    and run: "remix_with env req v calls =
      download_convert_upload env (index0 (member data ''images'')) ''ideogram-remixed'' ?calls"
    by (auto simp: remix_with_def Let_def split: sum.splits if_splits)
  from dcu_prefix [of env "index0 (member data ''images'')" "''ideogram-remixed''" ?calls]
  have "Post ?url ?payload (ideogram_headers env) \<in> set (snd (remix_with env req v calls))"
    by (auto simp: run)
  moreover from assms(1) dcu_success [of env "index0 (member data ''images'')" "''ideogram-remixed''"
      ?calls res]
  obtain png up where
    "last (snd (remix_with env req v calls)) =
       Upload \<lparr>folder = ''ideogram-remixed'', format = Some ''png''\<rparr> png"
    "upload_stream env \<lparr>folder = ''ideogram-remixed'', format = Some ''png''\<rparr> png = Inr up"
    "json res = [(''success'', JBool True), (''original_url'', index0 (member data ''images'')),
                 (''cloudinary_url'', JStr (secure_url up)), (''public_id'', JStr (public_id up))]"
    by (auto simp: run)
  ultimately show ?thesis using data by blast
qed

lemma remix_try_200:
  assumes "fst (remix_try env req) = Inr res" and "status res = 200"
  shows "\<exists>url payload data png up.
           Post url payload (ideogram_headers env) \<in> set (snd (remix_try env req)) \<and>
           axios_post env url payload (ideogram_headers env) = Inr data \<and>
           last (snd (remix_try env req)) =
             Upload \<lparr>folder = ''ideogram-remixed'', format = Some ''png''\<rparr> png \<and>
           upload_stream env \<lparr>folder = ''ideogram-remixed'', format = Some ''png''\<rparr> png = Inr up \<and>
           json res = [(''success'', JBool True),
                       (''original_url'', index0 (member data ''images'')),
                       (''cloudinary_url'', JStr (secure_url up)),
                       (''public_id'', JStr (public_id up))]"
proof -
  from assms obtain v calls where "remix_try env req = remix_with env req v calls"
    by (auto simp: remix_try_def Let_def split: sum.splits if_splits option.splits)
  with assms remix_with_200 [of env req v calls res] show ?thesis
    by simp
qed

text \<open>
  C2. On each endpoint, an answer with status 200 has exactly the fields
  \<^verbatim>\<open>success\<close> (true), \<^verbatim>\<open>original_url\<close>, \<^verbatim>\<open>cloudinary_url\<close> and
  \<^verbatim>\<open>public_id\<close>, where \<^verbatim>\<open>original_url\<close> is what the generation service
  returned to the call the run made (\<^verbatim>\<open>image\<close> for reframe, \<^verbatim>\<open>images[0]\<close>
  otherwise: the first element when \<^verbatim>\<open>images\<close> is a list) and the other two are
  the \<^verbatim>\<open>secure_url\<close> and \<^verbatim>\<open>public_id\<close> the media store returned to the last
  call of the run, the final upload.
\<close>

theorem success_response_fields:
  assumes "app_post path = Some h" and "status (fst (h env req)) = 200"
  shows "\<exists>url payload data opts png up.
           Post url payload (ideogram_headers env) \<in> set (snd (h env req)) \<and>
           axios_post env url payload (ideogram_headers env) = Inr data \<and>
           last (snd (h env req)) = Upload opts png \<and>
           upload_stream env opts png = Inr up \<and>
           json (fst (h env req)) =
             [(''success'', JBool True),
              (''original_url'',
                 if path = ''/api/reframe'' then member data ''image''
                 else index0 (member data ''images'')),
              (''cloudinary_url'', JStr (secure_url up)),
              (''public_id'', JStr (public_id up))] \<and>
           (\<forall>u us. member data ''images'' = JArr (u # us) \<longrightarrow>
                     index0 (member data ''images'') = u)"
  using assms(1)
proof (cases rule: app_post_cases)
  case 1
  from assms(2) have "fst (generate_try env req) = Inr (fst (h env req))"
    unfolding 1 generate_def by (rule catch_with_200)
  from generate_try_200 [OF this assms(2)] show ?thesis
    unfolding 1 by (simp add: generate_def snd_catch_with) blast
next
  case 2
  from assms(2) have "fst (reframe_try env req) = Inr (fst (h env req))"
    unfolding 2 reframe_def by (rule catch_with_200)
  from reframe_try_200 [OF this assms(2)] show ?thesis
    unfolding 2 by (simp add: reframe_def snd_catch_with) blast
next
  case 3
  from assms(2) have "fst (remix_try env req) = Inr (fst (h env req))"
    unfolding 3 remix_def by (rule catch_with_200)
  from remix_try_200 [OF this assms(2)] show ?thesis
    unfolding 3 by (simp add: remix_def snd_catch_with) blast
qed

text \<open>An instance of C2: the generate scenario with stub clients.\<close>

theorem success_response_fields_witness:
  "fst (generate stub_env fox_request) =
     \<lparr>status = 200,
      json = [(''success'', JBool True),
              (''original_url'', JStr ''https://ideogram.example/fox.jpg''),
              (''cloudinary_url'', JStr ''https://cdn/x.png''),
              (''public_id'', JStr ''ideogram-images/x'')]\<rparr>"
proof -
  have route: "app_post ''/api/generate'' = Some generate"
    by (simp add: app_post_def)
  have ok: "status (fst (generate stub_env fox_request)) = 200"
    by (simp add: handler_defs Let_def stub_env_def fox_request_def field_def fox_url_def)
  from success_response_fields [OF route ok]
  obtain url payload data opts png up where
    "axios_post stub_env url payload (ideogram_headers stub_env) = Inr data"
    "upload_stream stub_env opts png = Inr up"
    "last (snd (generate stub_env fox_request)) = Upload opts png"
    "json (fst (generate stub_env fox_request)) =
       [(''success'', JBool True), (''original_url'', index0 (member data ''images'')),
        (''cloudinary_url'', JStr (secure_url up)), (''public_id'', JStr (public_id up))]"
    by auto
  moreover have "last (snd (generate stub_env fox_request)) =
      Upload \<lparr>folder = ''ideogram-images'', format = Some ''png''\<rparr> [137, 80, 78, 71]"
    by (simp add: handler_defs Let_def stub_env_def fox_request_def field_def fox_url_def)
  moreover have "axios_post stub_env url payload (ideogram_headers stub_env) = Inr data \<Longrightarrow>
      index0 (member data ''images'') = JStr ''https://ideogram.example/fox.jpg'' \<or>
      url = ''https://api.ideogram.ai/reframe''"
    by (auto simp: stub_env_def fox_url_def field_def split: if_splits)
  ultimately show ?thesis
    using ok
    by (auto simp: handler_defs Let_def stub_env_def fox_request_def field_def fox_url_def split: if_splits)
qed

section \<open>The image source of a remix\<close>

lemma remix_with_body:
  assumes "field b' ''prompt'' = field (body req) ''prompt''"
    and "field b' ''aspect_ratio'' = field (body req) ''aspect_ratio''"
  shows "remix_with env (req\<lparr>body := b'\<rparr>) v calls = remix_with env req v calls"
  using assms by (simp add: remix_with_def)

lemma remix_with_prefix: "\<exists>rest. snd (remix_with env req v calls) = calls @ rest"
  using dcu_prefix [of env _ "''ideogram-remixed''" "calls @ [_]"]
  by (auto simp: remix_with_def Let_def split: sum.splits)

lemma remix_with_post:
  "Post url payload headers \<in> set (snd (remix_with env req v calls)) \<Longrightarrow>
   Post url payload headers \<notin> set calls \<Longrightarrow> field payload ''image_url'' = v"
  by (auto simp: remix_with_def Let_def field_def split: sum.splits if_splits dest!: dcu_post)

text \<open>With a prompt, the first call made after \<open>calls\<close> asks for a remix of \<open>v\<close>.\<close>

lemma remix_with_calls_service:
  assumes "truthy (field (body req) ''prompt'')"
  shows "\<exists>rest. snd (remix_with env req v calls) =
           calls @
           Post ''https://api.ideogram.ai/remix''
             [(''image_url'', v), (''prompt'', field (body req) ''prompt''),
              (''aspect_ratio'', defaulted (field (body req) ''aspect_ratio'') (JStr ''1:1''))]
             (ideogram_headers env) # rest"
  using assms dcu_prefix [of env _ "''ideogram-remixed''" "calls @ [_]"]
  by (auto simp: remix_with_def Let_def split: sum.splits)

lemma remix_temp_upload_first:
  assumes "req_file req = Some buffer"
  shows "\<exists>rest. snd (remix env req) =
            Upload \<lparr>folder = ''temp-uploads'', format = None\<rparr> buffer # rest \<and>
          (\<forall>url payload headers. Post url payload headers \<in> set rest \<longrightarrow>
             (\<exists>t. upload_stream env \<lparr>folder = ''temp-uploads'', format = None\<rparr> buffer = Inr t \<and>
                  field payload ''image_url'' = JStr (secure_url t)))"
proof (cases "upload_stream env \<lparr>folder = ''temp-uploads'', format = None\<rparr> buffer")
  case (Inl e)
  with assms show ?thesis
    by (simp add: remix_def remix_try_def catch_with_def)
next
  case (Inr t)
  let ?up = "Upload \<lparr>folder = ''temp-uploads'', format = None\<rparr> buffer"
  from assms Inr have run: "snd (remix env req) = snd (remix_with env req (JStr (secure_url t)) [?up])"
    by (simp add: remix_def remix_try_def snd_catch_with)
  from remix_with_prefix [of env req "JStr (secure_url t)" "[?up]"]
  obtain rest where rest: "snd (remix_with env req (JStr (secure_url t)) [?up]) = ?up # rest"
    by auto
  have "field payload ''image_url'' = JStr (secure_url t)"
    if "Post url payload headers \<in> set rest" for url payload headers
    using that remix_with_post [of url payload headers env req "JStr (secure_url t)" "[?up]"]
    by (simp add: rest)
  with run rest Inr show ?thesis by auto
qed

lemma remix_file_calls_service:
  assumes "req_file req = Some buffer"
    and "upload_stream env \<lparr>folder = ''temp-uploads'', format = None\<rparr> buffer = Inr t"
    and "truthy (field (body req) ''prompt'')"
  shows "\<exists>rest. snd (remix env req) =
           Upload \<lparr>folder = ''temp-uploads'', format = None\<rparr> buffer #
           Post ''https://api.ideogram.ai/remix''
             [(''image_url'', JStr (secure_url t)), (''prompt'', field (body req) ''prompt''),
              (''aspect_ratio'', defaulted (field (body req) ''aspect_ratio'') (JStr ''1:1''))]
             (ideogram_headers env) # rest"
  using assms(1,2)
    remix_with_calls_service [OF assms(3), of env "JStr (secure_url t)"
      "[Upload \<lparr>folder = ''temp-uploads'', format = None\<rparr> buffer]"]
  by (simp add: remix_def remix_try_def snd_catch_with)

text \<open>
  C5. In a remix with an uploaded file, only the file is the image source: the run
  does not depend on \<^verbatim>\<open>image_url\<close> (two bodies that agree on \<^verbatim>\<open>prompt\<close>
  and \<^verbatim>\<open>aspect_ratio\<close> give the same answer and the same calls); it starts by
  uploading the file; every call to the generation service in it carries the
  \<^verbatim>\<open>secure_url\<close> of that upload as \<^verbatim>\<open>image_url\<close>; and when the upload
  succeeds and a prompt is given, that call is made, right after the upload. With
  neither a file nor an image URL the answer is 400 with the image-source message and
  no call is made.
\<close>

theorem remix_file_precedence:
  "(req_file req = Some buffer \<longrightarrow>
      (field b' ''prompt'' = field (body req) ''prompt'' \<and>
       field b' ''aspect_ratio'' = field (body req) ''aspect_ratio'' \<longrightarrow>
         remix env (req\<lparr>body := b'\<rparr>) = remix env req) \<and>
      (\<exists>rest. snd (remix env req) =
          Upload \<lparr>folder = ''temp-uploads'', format = None\<rparr> buffer # rest \<and>
        (\<forall>url payload headers. Post url payload headers \<in> set rest \<longrightarrow>
           (\<exists>t. upload_stream env \<lparr>folder = ''temp-uploads'', format = None\<rparr> buffer = Inr t \<and>
                field payload ''image_url'' = JStr (secure_url t)))) \<and>
      (\<forall>t. upload_stream env \<lparr>folder = ''temp-uploads'', format = None\<rparr> buffer = Inr t \<and>
           truthy (field (body req) ''prompt'') \<longrightarrow>
         (\<exists>rest. snd (remix env req) =
            Upload \<lparr>folder = ''temp-uploads'', format = None\<rparr> buffer #
            Post ''https://api.ideogram.ai/remix''
              [(''image_url'', JStr (secure_url t)),
               (''prompt'', field (body req) ''prompt''),
               (''aspect_ratio'',
                  defaulted (field (body req) ''aspect_ratio'') (JStr ''1:1''))]
              (ideogram_headers env) # rest))) \<and>
   (req_file req = None \<and> \<not> truthy (field (body req) ''image_url'') \<longrightarrow>
      remix env req =
        (\<lparr>status = 400,
          json = [(''error'', JStr ''Image (file or URL) is required'')]\<rparr>, []))"
proof (intro conjI impI allI)
  assume f: "req_file req = Some buffer"
  show "remix env (req\<lparr>body := b'\<rparr>) = remix env req"
    if "field b' ''prompt'' = field (body req) ''prompt'' \<and>
        field b' ''aspect_ratio'' = field (body req) ''aspect_ratio''"
    using f that
    by (simp add: remix_def remix_try_def remix_with_body Let_def split: sum.splits)
  show "\<exists>rest. snd (remix env req) =
          Upload \<lparr>folder = ''temp-uploads'', format = None\<rparr> buffer # rest \<and>
        (\<forall>url payload headers. Post url payload headers \<in> set rest \<longrightarrow>
           (\<exists>t. upload_stream env \<lparr>folder = ''temp-uploads'', format = None\<rparr> buffer = Inr t \<and>
                field payload ''image_url'' = JStr (secure_url t)))"
    using f by (rule remix_temp_upload_first)
  show "\<exists>rest. snd (remix env req) =
            Upload \<lparr>folder = ''temp-uploads'', format = None\<rparr> buffer #
            Post ''https://api.ideogram.ai/remix''
              [(''image_url'', JStr (secure_url t)),
               (''prompt'', field (body req) ''prompt''),
               (''aspect_ratio'',
                  defaulted (field (body req) ''aspect_ratio'') (JStr ''1:1''))]
              (ideogram_headers env) # rest"
    if "upload_stream env \<lparr>folder = ''temp-uploads'', format = None\<rparr> buffer = Inr t \<and>
        truthy (field (body req) ''prompt'')" for t
    using f that by (blast intro: remix_file_calls_service)
next
  assume "req_file req = None \<and> \<not> truthy (field (body req) ''image_url'')"
  then show "remix env req =
        (\<lparr>status = 400,
          json = [(''error'', JStr ''Image (file or URL) is required'')]\<rparr>, [])"
    by (simp add: remix_def remix_try_def catch_with_def)
qed

text \<open>
  An instance of C5: a file together with an image URL, where the generation service
  is asked to remix the uploaded file and not the URL of the body, and a request with
  neither.
\<close>

theorem remix_file_precedence_witness:
  "remix stub_env (fox_file_request\<lparr>body := [(''prompt'', JStr ''a red fox'')]\<rparr>) =
     remix stub_env fox_file_request \<and>
   field (body fox_file_request) ''image_url'' = JStr ''https://elsewhere/cat.png'' \<and>
   (\<exists>rest. snd (remix stub_env fox_file_request) =
      Upload \<lparr>folder = ''temp-uploads'', format = None\<rparr> [1, 2, 3] #
      Post ''https://api.ideogram.ai/remix''
        [(''image_url'', JStr ''https://cdn/tmp.jpg''), (''prompt'', JStr ''a red fox''),
         (''aspect_ratio'', JStr ''1:1'')]
        (ideogram_headers stub_env) # rest) \<and>
   remix stub_env \<lparr>body = [], req_file = None\<rparr> =
     (\<lparr>status = 400, json = [(''error'', JStr ''Image (file or URL) is required'')]\<rparr>, [])"
proof -
  have up: "upload_stream stub_env \<lparr>folder = ''temp-uploads'', format = None\<rparr> [1, 2, 3] =
      Inr \<lparr>secure_url = ''https://cdn/tmp.jpg'', public_id = ''temp-uploads/tmp''\<rparr>"
    by (simp add: stub_env_def)
  from remix_file_precedence
    [of fox_file_request "[1, 2, 3]" "[(''prompt'', JStr ''a red fox'')]" stub_env]
    remix_file_precedence [of "\<lparr>body = [], req_file = None\<rparr>" "[]" "[]" stub_env] up
  show ?thesis
    by (simp add: fox_file_request_def field_def)
qed

section \<open>Folders in the media store\<close>

lemma dcu_uploads:
  "c \<in> set (snd (download_convert_upload env u f calls)) \<Longrightarrow> is_Upload c \<Longrightarrow>
     c \<in> set calls \<or> options c = \<lparr>folder = f, format = Some ''png''\<rparr>"
  by (auto simp: download_convert_upload_def Let_def split: sum.splits)

lemma generate_uploads:
  "c \<in> set (snd (generate env req)) \<Longrightarrow> is_Upload c \<Longrightarrow>
     options c = \<lparr>folder = ''ideogram-images'', format = Some ''png''\<rparr>"
  by (auto simp: generate_def snd_catch_with generate_try_def Let_def
      split: sum.splits if_splits dest!: dcu_uploads)

lemma reframe_uploads:
  "c \<in> set (snd (reframe env req)) \<Longrightarrow> is_Upload c \<Longrightarrow>
     options c = \<lparr>folder = ''ideogram-reframed'', format = Some ''png''\<rparr>"
  by (auto simp: reframe_def snd_catch_with reframe_try_def Let_def
      split: sum.splits if_splits dest!: dcu_uploads)

lemma remix_with_uploads:
  "c \<in> set (snd (remix_with env req v calls)) \<Longrightarrow> is_Upload c \<Longrightarrow>
     c \<in> set calls \<or> options c = \<lparr>folder = ''ideogram-remixed'', format = Some ''png''\<rparr>"
  by (auto simp: remix_with_def Let_def split: sum.splits if_splits dest!: dcu_uploads)

lemma remix_uploads:
  "c \<in> set (snd (remix env req)) \<Longrightarrow> is_Upload c \<Longrightarrow>
     options c = \<lparr>folder = ''ideogram-remixed'', format = Some ''png''\<rparr> \<or>
     (\<exists>buffer. req_file req = Some buffer \<and>
        c = Upload \<lparr>folder = ''temp-uploads'', format = None\<rparr> buffer)"
  by (auto simp: remix_def snd_catch_with remix_try_def Let_def
      split: sum.splits if_splits option.splits dest!: remix_with_uploads)

text \<open>
  C6 (as amended). Every upload of a generate run goes to the folder
  \<^verbatim>\<open>ideogram-images\<close>, of a reframe run to \<^verbatim>\<open>ideogram-reframed\<close>, of a remix
  run to \<^verbatim>\<open>ideogram-remixed\<close> or, for the uploaded file, to \<^verbatim>\<open>temp-uploads\<close>;
  a run answered 200 ends with the upload to its endpoint's folder; the four names are
  pairwise distinct; and a remix with an uploaded file starts by uploading the file to
  \<^verbatim>\<open>temp-uploads\<close>, and any later call to the generation service carries the
  \<^verbatim>\<open>secure_url\<close> of that upload as \<^verbatim>\<open>image_url\<close>.
\<close>

theorem upload_folders:
  "(\<forall>c\<in>set (snd (generate env req)). is_Upload c \<longrightarrow>
       options c = \<lparr>folder = ''ideogram-images'', format = Some ''png''\<rparr>) \<and>
   (\<forall>c\<in>set (snd (reframe env req)). is_Upload c \<longrightarrow>
       options c = \<lparr>folder = ''ideogram-reframed'', format = Some ''png''\<rparr>) \<and>
   (\<forall>c\<in>set (snd (remix env req)). is_Upload c \<longrightarrow>
       options c = \<lparr>folder = ''ideogram-remixed'', format = Some ''png''\<rparr> \<or>
       (\<exists>buffer. req_file req = Some buffer \<and>
          c = Upload \<lparr>folder = ''temp-uploads'', format = None\<rparr> buffer)) \<and>
   (status (fst (generate env req)) = 200 \<longrightarrow>
      (\<exists>png. last (snd (generate env req)) =
         Upload \<lparr>folder = ''ideogram-images'', format = Some ''png''\<rparr> png)) \<and>
   (status (fst (reframe env req)) = 200 \<longrightarrow>
      (\<exists>png. last (snd (reframe env req)) =
         Upload \<lparr>folder = ''ideogram-reframed'', format = Some ''png''\<rparr> png)) \<and>
   (status (fst (remix env req)) = 200 \<longrightarrow>
      (\<exists>png. last (snd (remix env req)) =
         Upload \<lparr>folder = ''ideogram-remixed'', format = Some ''png''\<rparr> png)) \<and>
   distinct [''ideogram-images'', ''ideogram-reframed'', ''ideogram-remixed'', ''temp-uploads''] \<and>
   (\<forall>buffer. req_file req = Some buffer \<longrightarrow>
      (\<exists>rest. snd (remix env req) =
           Upload \<lparr>folder = ''temp-uploads'', format = None\<rparr> buffer # rest \<and>
         (\<forall>url payload headers. Post url payload headers \<in> set rest \<longrightarrow>
            (\<exists>t. upload_stream env \<lparr>folder = ''temp-uploads'', format = None\<rparr> buffer = Inr t \<and>
                 field payload ''image_url'' = JStr (secure_url t)))))"
proof -
  have g: "\<exists>png. last (snd (generate env req)) =
         Upload \<lparr>folder = ''ideogram-images'', format = Some ''png''\<rparr> png"
    if ok: "status (fst (generate env req)) = 200"
  proof -
    from ok have "fst (generate_try env req) = Inr (fst (generate env req))"
      unfolding generate_def by (rule catch_with_200)
    from generate_try_200 [OF this ok] show ?thesis
      by (auto simp: generate_def snd_catch_with)
  qed
  have r: "\<exists>png. last (snd (reframe env req)) =
         Upload \<lparr>folder = ''ideogram-reframed'', format = Some ''png''\<rparr> png"
    if ok: "status (fst (reframe env req)) = 200"
  proof -
    from ok have "fst (reframe_try env req) = Inr (fst (reframe env req))"
      unfolding reframe_def by (rule catch_with_200)
    from reframe_try_200 [OF this ok] show ?thesis
      by (auto simp: reframe_def snd_catch_with)
  qed
  have m: "\<exists>png. last (snd (remix env req)) =
         Upload \<lparr>folder = ''ideogram-remixed'', format = Some ''png''\<rparr> png"
    if ok: "status (fst (remix env req)) = 200"
  proof -
    from ok have "fst (remix_try env req) = Inr (fst (remix env req))"
      unfolding remix_def by (rule catch_with_200)
    from remix_try_200 [OF this ok] show ?thesis
      by (auto simp: remix_def snd_catch_with)
  qed
  have d: "distinct [''ideogram-images'', ''ideogram-reframed'', ''ideogram-remixed'', ''temp-uploads'']"
    by simp
  show ?thesis
    using generate_uploads [of _ env req] reframe_uploads [of _ env req]
      remix_uploads [of _ env req] g r m d remix_temp_upload_first [of req _ env]
    by blast
qed

text \<open>
  C6 as first stated names the folder of the pre-step \<^verbatim>\<open>temp\<close>; the calls of a
  remix with an uploaded file show \<^verbatim>\<open>temp-uploads\<close>.
\<close>

theorem temp_folder_name:
  "snd (remix stub_env fox_file_request) =
     [Upload \<lparr>folder = ''temp-uploads'', format = None\<rparr> [1, 2, 3],
      Post ''https://api.ideogram.ai/remix''
        [(''image_url'', JStr ''https://cdn/tmp.jpg''), (''prompt'', JStr ''a red fox''),
         (''aspect_ratio'', JStr ''1:1'')]
        (ideogram_headers stub_env),
      Get (JStr ''https://ideogram.example/fox.jpg''),
      Sharp [255, 216, 255],
      Upload \<lparr>folder = ''ideogram-remixed'', format = Some ''png''\<rparr> [137, 80, 78, 71]] \<and>
   folder (options (hd (snd (remix stub_env fox_file_request)))) \<noteq> ''temp''"
  by (simp add: handler_defs Let_def stub_env_def fox_file_request_def field_def fox_url_def)

text \<open>An instance of C6: a successful remix with an uploaded file.\<close>

theorem upload_folders_witness:
  "status (fst (remix stub_env fox_file_request)) = 200 \<and>
   (\<exists>png. last (snd (remix stub_env fox_file_request)) =
      Upload \<lparr>folder = ''ideogram-remixed'', format = Some ''png''\<rparr> png) \<and>
   (\<exists>rest. snd (remix stub_env fox_file_request) =
      Upload \<lparr>folder = ''temp-uploads'', format = None\<rparr> [1, 2, 3] # rest)"
proof -
  have ok: "status (fst (remix stub_env fox_file_request)) = 200"
    by (simp add: handler_defs Let_def stub_env_def fox_file_request_def field_def fox_url_def)
  have f: "req_file fox_file_request = Some [1, 2, 3]"
    by (simp add: fox_file_request_def)
  from upload_folders [of stub_env fox_file_request] ok f show ?thesis
    by blast
qed

end
